theory Spec2Isabelle
  imports
    Complex_Main
    "HOL-Library.AList"
    "HOL-Library.Multiset"
    "HOL-Library.Char_ord"
    "HOL-Library.List_Lexorder"
begin

section \<open>Values read from and written to \<^verbatim>\<open>patients.json\<close>\<close>

text \<open>
  \<^verbatim>\<open>json.load\<close> yields Python values. The fields of a patient are scalars, so a field
  value is one of \<^verbatim>\<open>None\<close>, a \<^verbatim>\<open>bool\<close>, an \<^verbatim>\<open>int\<close>, a \<^verbatim>\<open>float\<close> or a \<^verbatim>\<open>str\<close>.
  A Python \<^verbatim>\<open>float\<close> is taken as a rational number: finite, with exact arithmetic
  (no NaN, no infinities, no overflow and no rounding of the quotient). Strings are lists
  of 8-bit characters.

  A Python \<^verbatim>\<open>dict\<close> keeps insertion order, and \<^verbatim>\<open>sort_patients\<close> depends on the order
  of \<^verbatim>\<open>data.values()\<close>, so a dict is an association list: \<^verbatim>\<open>d[k] = v\<close> is
  \<^const>\<open>AList.update\<close> (replace in place, or append), \<^verbatim>\<open>del d[k]\<close> is \<^const>\<open>AList.delete\<close>,
  \<^verbatim>\<open>k in d\<close> is \<open>map_of d k \<noteq> None\<close>.
\<close>

datatype json = JNull | JBool bool | JInt int | JFloat rat | JStr string

type_synonym obj = "(string \<times> json) list"

type_synonym collection = "(string \<times> obj) list"

text \<open>\<^verbatim>\<open>x.get(key, default)\<close>\<close>

definition get :: "obj \<Rightarrow> string \<Rightarrow> json \<Rightarrow> json" where
  "get x key dflt = (case map_of x key of None \<Rightarrow> dflt | Some v \<Rightarrow> v)"

section \<open>\<^verbatim>\<open>util.py\<close>: the persisted file\<close>

text \<open>
  The state is the content of the file together with the sequence of accesses made to it,
  so that "storage is not touched" is a statement about the state.
\<close>

datatype io_event = Loaded | Saved

record storage =
  patients_json :: collection
  trace :: "io_event list"

definition load_data :: "storage \<Rightarrow> collection \<times> storage" where
  "load_data s = (patients_json s, s\<lparr>trace := trace s @ [Loaded]\<rparr>)"

definition save_data :: "collection \<Rightarrow> storage \<Rightarrow> storage" where
  "save_data data s = s\<lparr>patients_json := data, trace := trace s @ [Saved]\<rparr>"

section \<open>\<^verbatim>\<open>main.py\<close>: the \<^verbatim>\<open>Patient\<close> model\<close>

datatype gender = Male | Female | Others

fun gender_str :: "gender \<Rightarrow> string" where
  "gender_str Male = ''male''"
| "gender_str Female = ''female''"
| "gender_str Others = ''others''"

record Patient =
  ident :: string
  name :: string
  city :: string
  age :: int
  gender :: gender
  height :: rat
  weight :: rat

text \<open>The constraints of the \<^verbatim>\<open>Field\<close> declarations; every \<^verbatim>\<open>Patient\<close> object satisfies them.\<close>

definition valid_patient :: "Patient \<Rightarrow> bool" where
  "valid_patient p \<longleftrightarrow>
     2 \<le> length (name p) \<and> length (name p) \<le> 50 \<and>
     2 \<le> length (city p) \<and> length (city p) \<le> 100 \<and>
     0 < age p \<and> 0 < height p \<and> 0 < weight p"

text \<open>
  Python's \<^verbatim>\<open>round(x, ndigits)\<close> on a float: the nearest multiple of \<open>10 ^ -ndigits\<close>,
  a tie going to the even one.
\<close>

definition py_round :: "rat \<Rightarrow> nat \<Rightarrow> rat" where
  "py_round x ndigits =
     (let y = x * 10 ^ ndigits;
          f = \<lfloor>y\<rfloor>;
          d = y - of_int f;
          n = (if d < 1 / 2 then f else if 1 / 2 < d then f + 1
               else if even f then f else f + 1)
      in of_int n / 10 ^ ndigits)"

definition bmi :: "Patient \<Rightarrow> rat" where
  "bmi p = py_round (weight p / (height p) ^ 2) 2"

definition verdict :: "Patient \<Rightarrow> string" where
  "verdict p =
     (if bmi p < 185 / 10 then ''Underweight''
      else if 185 / 10 \<le> bmi p \<and> bmi p < 249 / 10 then ''Normal weight''
      else if 25 \<le> bmi p \<and> bmi p < 299 / 10 then ''Overweight''
      else ''Obesity'')"

text \<open>
  \<^verbatim>\<open>model_dump()\<close>: the fields in declaration order, then the computed fields.
  \<^verbatim>\<open>model_dump(exclude=[...])\<close> leaves the named keys out.
\<close>

definition model_dump :: "Patient \<Rightarrow> obj" where
  "model_dump p =
     [(''id'', JStr (ident p)),
      (''name'', JStr (name p)),
      (''city'', JStr (city p)),
      (''age'', JInt (age p)),
      (''gender'', JStr (gender_str (gender p))),
      (''height'', JFloat (height p)),
      (''weight'', JFloat (weight p)),
      (''bmi'', JFloat (bmi p)),
      (''verdict'', JStr (verdict p))]"

definition model_dump_exclude :: "string list \<Rightarrow> Patient \<Rightarrow> obj" where
  "model_dump_exclude exclude p = filter (\<lambda>kv. fst kv \<notin> set exclude) (model_dump p)"

subsection \<open>Validation: \<^verbatim>\<open>Patient(**d)\<close>\<close>

text \<open>
  Pydantic validates in lax mode: a \<^verbatim>\<open>str\<close> field takes a string only; an \<^verbatim>\<open>int\<close> field
  takes an int, a bool, a float without fractional part, or a string that parses as an
  int; a \<^verbatim>\<open>float\<close> field takes a float, an int, a bool, or a string that parses as a
  float; a \<^verbatim>\<open>Literal\<close> field takes one of its values; \<^verbatim>\<open>None\<close> is taken by none of them.
  How the library parses a string as a number is not fixed here: the two parsers are
  parameters.
\<close>

record lax =
  str_as_int :: "string \<Rightarrow> int option"
  str_as_float :: "string \<Rightarrow> rat option"

fun validate_str :: "nat \<Rightarrow> nat \<Rightarrow> json \<Rightarrow> string option" where
  "validate_str min_length max_length (JStr s) =
     (if min_length \<le> length s \<and> length s \<le> max_length then Some s else None)"
| "validate_str min_length max_length _ = None"

fun validate_id :: "json \<Rightarrow> string option" where
  "validate_id (JStr s) = Some s"
| "validate_id _ = None"

fun coerce_int :: "lax \<Rightarrow> json \<Rightarrow> int option" where
  "coerce_int L (JInt i) = Some i"
| "coerce_int L (JBool b) = Some (if b then 1 else 0)"
| "coerce_int L (JFloat r) = (if of_int \<lfloor>r\<rfloor> = r then Some \<lfloor>r\<rfloor> else None)"
| "coerce_int L (JStr s) = str_as_int L s"
| "coerce_int L JNull = None"

fun coerce_float :: "lax \<Rightarrow> json \<Rightarrow> rat option" where
  "coerce_float L (JFloat r) = Some r"
| "coerce_float L (JInt i) = Some (of_int i)"
| "coerce_float L (JBool b) = Some (if b then 1 else 0)"
| "coerce_float L (JStr s) = str_as_float L s"
| "coerce_float L JNull = None"

text \<open>\<^verbatim>\<open>gt=0\<close>\<close>

definition gt0 :: "('a :: {zero, ord}) option \<Rightarrow> 'a option" where
  "gt0 v = (case v of None \<Rightarrow> None | Some x \<Rightarrow> if 0 < x then Some x else None)"

definition validate_age :: "lax \<Rightarrow> json \<Rightarrow> int option" where
  "validate_age L j = gt0 (coerce_int L j)"

definition validate_positive_float :: "lax \<Rightarrow> json \<Rightarrow> rat option" where
  "validate_positive_float L j = gt0 (coerce_float L j)"

fun validate_gender :: "json \<Rightarrow> gender option" where
  "validate_gender (JStr s) =
     (if s = ''male'' then Some Male
      else if s = ''female'' then Some Female
      else if s = ''others'' then Some Others
      else None)"
| "validate_gender _ = None"

text \<open>A required field: missing is an error, present is validated.\<close>

definition field :: "obj \<Rightarrow> string \<Rightarrow> (json \<Rightarrow> 'a option) \<Rightarrow> 'a option" where
  "field d key validator = (case map_of d key of None \<Rightarrow> None | Some v \<Rightarrow> validator v)"

definition parse_patient :: "lax \<Rightarrow> obj \<Rightarrow> Patient option" where
  "parse_patient L d =
     Option.bind (field d ''id'' validate_id) (\<lambda>i.
     Option.bind (field d ''name'' (validate_str 2 50)) (\<lambda>n.
     Option.bind (field d ''city'' (validate_str 2 100)) (\<lambda>c.
     Option.bind (field d ''age'' (validate_age L)) (\<lambda>a.
     Option.bind (field d ''gender'' validate_gender) (\<lambda>g.
     Option.bind (field d ''height'' (validate_positive_float L)) (\<lambda>h.
     Option.bind (field d ''weight'' (validate_positive_float L)) (\<lambda>w.
       Some \<lparr>ident = i, name = n, city = c, age = a, gender = g,
             height = h, weight = w\<rparr>)))))))"

text \<open>The names of the fields that fail, in declaration order, as the error reports them.\<close>

definition invalid_fields :: "lax \<Rightarrow> obj \<Rightarrow> string list" where
  "invalid_fields L d =
     (if field d ''id'' validate_id = None then [''id''] else []) @
     (if field d ''name'' (validate_str 2 50) = None then [''name''] else []) @
     (if field d ''city'' (validate_str 2 100) = None then [''city''] else []) @
     (if field d ''age'' (validate_age L) = None then [''age''] else []) @
     (if field d ''gender'' validate_gender = None then [''gender''] else []) @
     (if field d ''height'' (validate_positive_float L) = None then [''height''] else []) @
     (if field d ''weight'' (validate_positive_float L) = None then [''weight''] else [])"

datatype error =
    HTTPException nat string
  | ValidationError "string list"
  | TypeError

definition validate_patient :: "lax \<Rightarrow> obj \<Rightarrow> error + Patient" where
  "validate_patient L d =
     (case parse_patient L d of
        None \<Rightarrow> Inl (ValidationError (invalid_fields L d))
      | Some p \<Rightarrow> Inr p)"

subsection \<open>\<^verbatim>\<open>PatientUpdate\<close>\<close>

text \<open>
  Every field is optional, and the model remembers which fields the payload set:
  a field is unset, or set to \<^verbatim>\<open>None\<close>, or set to a value.
\<close>

datatype 'a opt_field = Unset | Given "'a option"

record PatientUpdate =
  u_name :: "string opt_field"
  u_city :: "string opt_field"
  u_age :: "int opt_field"
  u_gender :: "gender opt_field"
  u_height :: "rat opt_field"
  u_weight :: "rat opt_field"

fun dump_field :: "string \<Rightarrow> ('a \<Rightarrow> json) \<Rightarrow> 'a opt_field \<Rightarrow> obj" where
  "dump_field key to_json Unset = []"
| "dump_field key to_json (Given None) = [(key, JNull)]"
| "dump_field key to_json (Given (Some v)) = [(key, to_json v)]"

text \<open>\<^verbatim>\<open>model_dump(exclude_unset=True)\<close>\<close>

definition model_dump_exclude_unset :: "PatientUpdate \<Rightarrow> obj" where
  "model_dump_exclude_unset u =
     dump_field ''name'' JStr (u_name u) @
     dump_field ''city'' JStr (u_city u) @
     dump_field ''age'' JInt (u_age u) @
     dump_field ''gender'' (\<lambda>g. JStr (gender_str g)) (u_gender u) @
     dump_field ''height'' JFloat (u_height u) @
     dump_field ''weight'' JFloat (u_weight u)"

section \<open>\<^verbatim>\<open>main.py\<close>: the routes\<close>

subsection \<open>\<^verbatim>\<open>str.strip()\<close> and \<^verbatim>\<open>str.upper()\<close>\<close>

text \<open>
  On ASCII: the whitespace characters are the ones \<^verbatim>\<open>str.isspace\<close> accepts below 128, and
  \<^verbatim>\<open>upper\<close> maps \<^verbatim>\<open>a\<close>..\<^verbatim>\<open>z\<close> to \<^verbatim>\<open>A\<close>..\<^verbatim>\<open>Z\<close>. A character from 128 on is left as it is.
\<close>

definition isspace :: "char \<Rightarrow> bool" where
  "isspace c \<longleftrightarrow>
     c \<in> set [CHR 0x09, CHR 0x0A, CHR 0x0B, CHR 0x0C, CHR 0x0D,
               CHR 0x1C, CHR 0x1D, CHR 0x1E, CHR 0x1F, CHR 0x20]"

definition strip :: "string \<Rightarrow> string" where
  "strip s = rev (dropWhile isspace (rev (dropWhile isspace s)))"

definition upper_char :: "char \<Rightarrow> char" where
  "upper_char c =
     (if CHR ''a'' \<le> c \<and> c \<le> CHR ''z'' then char_of (of_char c - (32 :: nat)) else c)"

definition upper :: "string \<Rightarrow> string" where
  "upper s = map upper_char s"

subsection \<open>\<^verbatim>\<open>sorted(iterable, key=..., reverse=...)\<close>\<close>

text \<open>
  The built-in sort is stable; with \<^verbatim>\<open>reverse=True\<close> it reverses the list, sorts it and
  reverses the result, so that equal keys keep their order. It compares keys with \<^verbatim>\<open><\<close>:
  numbers (int, float, bool) compare by value, strings compare lexicographically, and
  anything else raises \<^verbatim>\<open>TypeError\<close>. A list of at most one element is never compared.
\<close>

fun num_key :: "json \<Rightarrow> rat option" where
  "num_key (JInt i) = Some (of_int i)"
| "num_key (JFloat r) = Some r"
| "num_key (JBool b) = Some (if b then 1 else 0)"
| "num_key _ = None"

fun str_key :: "json \<Rightarrow> string option" where
  "str_key (JStr s) = Some s"
| "str_key _ = None"

definition num_of :: "json \<Rightarrow> rat" where
  "num_of j = (case num_key j of Some r \<Rightarrow> r | None \<Rightarrow> 0)"

definition str_of :: "json \<Rightarrow> string" where
  "str_of j = (case str_key j of Some s \<Rightarrow> s | None \<Rightarrow> [])"

definition list_sort :: "('a \<Rightarrow> 'k :: linorder) \<Rightarrow> bool \<Rightarrow> 'a list \<Rightarrow> 'a list" where
  "list_sort key reverse xs =
     (if reverse then rev (sort_key key (rev xs)) else sort_key key xs)"

definition sorted_py :: "(obj \<Rightarrow> json) \<Rightarrow> bool \<Rightarrow> obj list \<Rightarrow> error + obj list" where
  "sorted_py key reverse xs =
     (if length xs \<le> 1 then Inr xs
      else if list_all (\<lambda>x. num_key (key x) \<noteq> None) xs
        then Inr (list_sort (\<lambda>x. num_of (key x)) reverse xs)
      else if list_all (\<lambda>x. str_key (key x) \<noteq> None) xs
        then Inr (list_sort (\<lambda>x. str_of (key x)) reverse xs)
      else Inl TypeError)"

subsection \<open>The handlers\<close>

text \<open>
  A handler takes the state of the storage and returns its result, an error or a value,
  with the state it leaves. A raise ends the handler: what follows it is not run.
\<close>

record JSONResponse =
  status_code :: nat
  content_message :: string
  content_patient :: obj

definition view_patients :: "storage \<Rightarrow> collection \<times> storage" where
  "view_patients s = load_data s"

definition view_patient :: "string \<Rightarrow> storage \<Rightarrow> (error + obj) \<times> storage" where
  "view_patient patient_id s =
     (let (data, s1) = load_data s;
          patient_id = upper (strip patient_id)
      in case map_of data patient_id of
           Some x \<Rightarrow> (Inr x, s1)
         | None \<Rightarrow> (Inl (HTTPException 404 ''Patient not found''), s1))"

definition valid_sort_fields :: "string list" where
  "valid_sort_fields = [''bmi'', ''weight'', ''height'']"

definition sort_patients ::
  "string \<Rightarrow> string \<Rightarrow> storage \<Rightarrow> (error + obj list) \<times> storage" where
  "sort_patients sort_by order s =
     (if sort_by \<notin> set valid_sort_fields then
        (Inl (HTTPException 400
           ''Invalid sort field. Must be one of ['bmi', 'weight', 'height']''), s)
      else if order \<notin> set [''asc'', ''desc''] then
        (Inl (HTTPException 400 (''Invalid order. Must be 'asc' or 'desc'' @ [CHR 0x27])), s)
      else
        let (data, s1) = load_data s
        in (sorted_py (\<lambda>x. get x sort_by (JInt 0)) (order = ''desc'') (map snd data), s1))"

definition create_patient ::
  "Patient \<Rightarrow> storage \<Rightarrow> (error + JSONResponse) \<times> storage" where
  "create_patient p s =
     (let (data, s1) = load_data s
      in if map_of data (ident p) \<noteq> None then
           (Inl (HTTPException 400 ''Patient ID already exists''), s1)
         else
           let data = AList.update (ident p) (model_dump_exclude [''id''] p) data;
               s2 = save_data data s1
           in (Inr \<lparr>status_code = 201, content_message = ''Patient created successfully'',
                     content_patient = model_dump p\<rparr>, s2))"

definition update_patient ::
  "lax \<Rightarrow> string \<Rightarrow> PatientUpdate \<Rightarrow> storage \<Rightarrow> (error + JSONResponse) \<times> storage" where
  "update_patient L patient_id patient_update s =
     (let (data, s1) = load_data s
      in case map_of data patient_id of
           None \<Rightarrow> (Inl (HTTPException 404 ''Patient not found''), s1)
         | Some existing_patient \<Rightarrow>
             let patient_update_dict = model_dump_exclude_unset patient_update;
                 existing_patient =
                   fold (\<lambda>kv d. AList.update (fst kv) (snd kv) d)
                     patient_update_dict existing_patient;
                 existing_patient = AList.update ''id'' (JStr patient_id) existing_patient
             in case validate_patient L existing_patient of
                  Inl e \<Rightarrow> (Inl e, s1)
                | Inr patient_pydentic_obj \<Rightarrow>
                    let existing_patient = model_dump_exclude [''id''] patient_pydentic_obj;
                        data = AList.update patient_id existing_patient data;
                        s2 = save_data data s1
                    in (Inr \<lparr>status_code = 200, content_message = ''Patient updated successfully'',
                              content_patient = existing_patient\<rparr>, s2))"

definition delete_patient :: "string \<Rightarrow> storage \<Rightarrow> (error + string) \<times> storage" where
  "delete_patient patient_id s =
     (let (data, s1) = load_data s;
          patient_id = upper (strip patient_id)
      in if map_of data patient_id \<noteq> None then
           (Inr ''Patient deleted successfully'', save_data (AList.delete patient_id data) s1)
         else (Inl (HTTPException 404 ''Patient not found''), s1))"

section \<open>Concrete data\<close>

text \<open>
  The store of the specification's scenario, as a hand-written file has it (six fields,
  the weight an integer), and the patient it describes.
\<close>

definition john :: Patient where
  "john = \<lparr>ident = ''P001'', name = ''John Doe'', city = ''NY'', age = 30, gender = Male,
            height = 175 / 100, weight = 70\<rparr>"

definition john_stored :: obj where
  "john_stored =
     [(''name'', JStr ''John Doe''), (''city'', JStr ''NY''), (''age'', JInt 30),
      (''gender'', JStr ''male''), (''height'', JFloat (175 / 100)), (''weight'', JInt 70)]"

definition scenario :: storage where
  "scenario = \<lparr>patients_json = [(''P001'', john_stored)], trace = []\<rparr>"

definition empty_storage :: storage where
  "empty_storage = \<lparr>patients_json = [], trace = []\<rparr>"

text \<open>The payload \<^verbatim>\<open>{"age": n}\<close>.\<close>

definition age_only :: "int \<Rightarrow> PatientUpdate" where
  "age_only n = \<lparr>u_name = Unset, u_city = Unset, u_age = Given (Some n),
                  u_gender = Unset, u_height = Unset, u_weight = Unset\<rparr>"

text \<open>Parsers that take no string as a number.\<close>

definition no_parse :: lax where
  "no_parse = \<lparr>str_as_int = (\<lambda>s. None), str_as_float = (\<lambda>s. None)\<rparr>"


definition null_name :: PatientUpdate where
  "null_name = \<lparr>u_name = Given None, u_city = Unset, u_age = Unset,
                 u_gender = Unset, u_height = Unset, u_weight = Unset\<rparr>"

text \<open>
  A store for sorting: two records with the same bmi, one without a bmi, one with an
  integer bmi.
\<close>

definition ann :: obj where
  "ann = [(''name'', JStr ''Ann''), (''bmi'', JFloat (2286 / 100))]"

definition bob :: obj where
  "bob = [(''name'', JStr ''Bob'')]"

definition cyd :: obj where
  "cyd = [(''name'', JStr ''Cyd''), (''bmi'', JInt 30)]"

definition dee :: obj where
  "dee = [(''name'', JStr ''Dee''), (''bmi'', JFloat (2286 / 100))]"

definition ward :: storage where
  "ward = \<lparr>patients_json = [(''P001'', ann), (''P002'', bob), (''P003'', cyd), (''P004'', dee)],
            trace = []\<rparr>"

section \<open>Notions used in the statements\<close>

text \<open>The number a record is ordered by, and whether its sort key is a number.\<close>

definition sort_value :: "string \<Rightarrow> obj \<Rightarrow> rat" where
  "sort_value sort_by x = num_of (get x sort_by (JInt 0))"

definition numeric_field :: "string \<Rightarrow> obj \<Rightarrow> bool" where
  "numeric_field sort_by x \<longleftrightarrow> num_key (get x sort_by (JInt 0)) \<noteq> None"

text \<open>The fields a payload sets to null.\<close>

definition null_fields :: "PatientUpdate \<Rightarrow> string list" where
  "null_fields u =
     (if u_name u = Given None then [''name''] else []) @
     (if u_city u = Given None then [''city''] else []) @
     (if u_age u = Given None then [''age''] else []) @
     (if u_gender u = Given None then [''gender''] else []) @
     (if u_height u = Given None then [''height''] else []) @
     (if u_weight u = Given None then [''weight''] else [])"

section \<open>Properties\<close>

subsection \<open>The computed fields\<close>





subsection \<open>Sorting\<close>

text \<open>
  Claim C9. A sort request whose \<open>sort_by\<close> is none of bmi, weight, height, or whose
  \<open>order\<close> is none of asc, desc, fails with status 400, and the storage is left as it was:
  the file is the same and it has been neither loaded nor saved.
\<close>

theorem sort_patients_invalid_argument:
  assumes "sort_by \<notin> {''bmi'', ''weight'', ''height''} \<or> order \<notin> {''asc'', ''desc''}"
  shows "\<exists>detail. sort_patients sort_by order s = (Inl (HTTPException 400 detail), s)"
  using assms by (auto simp: sort_patients_def valid_sort_fields_def)

theorem sort_patients_invalid_argument_witness:
  "''name'' \<notin> {''bmi'', ''weight'', ''height''}
   \<and> (\<exists>detail. sort_patients ''name'' ''asc'' scenario
         = (Inl (HTTPException 400 detail), scenario))
   \<and> ''up'' \<notin> {''asc'', ''desc''}
   \<and> (\<exists>detail. sort_patients ''bmi'' ''up'' scenario
         = (Inl (HTTPException 400 detail), scenario))"
proof -
  have a: "''name'' \<notin> {''bmi'', ''weight'', ''height''}" and b: "''up'' \<notin> {''asc'', ''desc''}"
    by simp_all
  show ?thesis
    using a b sort_patients_invalid_argument[of "''name''" "''asc''" scenario]
      sort_patients_invalid_argument[of "''bmi''" "''up''" scenario]
    by simp
qed

subsection \<open>What a handler leaves in the storage\<close>



lemma create_patient_success:
  "create_patient p s = (Inr r, s') \<Longrightarrow>
   s' = \<lparr>patients_json =
           AList.update (ident p) (model_dump_exclude [''id''] p) (patients_json s),
         trace = trace s @ [Loaded, Saved]\<rparr>"
  by (auto simp: create_patient_def load_data_def save_data_def Let_def split: if_splits)


lemma update_patient_success:
  "update_patient L pid u s = (Inr r, s') \<Longrightarrow>
   s' = \<lparr>patients_json = AList.update pid (content_patient r) (patients_json s),
         trace = trace s @ [Loaded, Saved]\<rparr>"
  by (auto simp: update_patient_def load_data_def save_data_def Let_def
      split: option.splits sum.splits)

lemma update_patient_success_dump:
  "update_patient L pid u s = (Inr r, s') \<Longrightarrow>
   \<exists>q. content_patient r = model_dump_exclude [''id''] q"
  by (auto simp: update_patient_def load_data_def save_data_def Let_def
      split: option.splits sum.splits)




subsection \<open>An explicit null in an update\<close>

lemma map_of_merge:
  "map_of (fold (\<lambda>kv d. AList.update (fst kv) (snd kv) d) items d) k
     = (case map_of (rev items) k of Some v \<Rightarrow> Some v | None \<Rightarrow> map_of d k)"
proof (induction items arbitrary: d)
  case Nil
  show ?case by simp
next
  case (Cons kv items)
  show ?case
    by (cases kv) (auto simp: Cons.IH update_conv' map_add_def split: option.splits)
qed

lemma map_of_rev_dump_field:
  "map_of (rev (dump_field key to_json f)) k
     = (if k = key then (case f of Unset \<Rightarrow> None | Given None \<Rightarrow> Some JNull
                          | Given (Some v) \<Rightarrow> Some (to_json v)) else None)"
  by (cases "(key, to_json, f)" rule: dump_field.cases) auto

lemma in_singleton_if: "k \<in> set (if c then [a] else []) \<longleftrightarrow> k = a \<and> c"
  by auto

lemma null_fields_iff:
  "k \<in> set (null_fields u) \<longleftrightarrow>
     k = ''name'' \<and> u_name u = Given None \<or> k = ''city'' \<and> u_city u = Given None \<or>
     k = ''age'' \<and> u_age u = Given None \<or> k = ''gender'' \<and> u_gender u = Given None \<or>
     k = ''height'' \<and> u_height u = Given None \<or> k = ''weight'' \<and> u_weight u = Given None"
  unfolding null_fields_def set_append Un_iff in_singleton_if by (rule refl)

lemma null_fields_names:
  "k \<in> set (null_fields u) \<Longrightarrow>
     k \<in> {''name'', ''city'', ''age'', ''gender'', ''height'', ''weight''}"
  unfolding null_fields_iff by (elim disjE conjE) simp_all

lemma null_field_dumped:
  assumes "k \<in> set (null_fields u)"
  shows "map_of (rev (model_dump_exclude_unset u)) k = Some JNull"
  using assms unfolding null_fields_iff
  by (elim disjE conjE)
    (simp_all add: model_dump_exclude_unset_def map_add_def map_of_rev_dump_field)

lemma null_field_merged:
  assumes "k \<in> set (null_fields u)"
  shows "map_of (AList.update ''id'' (JStr pid)
           (fold (\<lambda>kv d. AList.update (fst kv) (snd kv) d) (model_dump_exclude_unset u) x)) k
         = Some JNull"
proof -
  have "k \<noteq> ''id''"
    using null_fields_names[OF assms] by (elim insertE emptyE) simp_all
  then show ?thesis
    by (simp add: update_conv' map_of_merge null_field_dumped[OF assms])
qed

lemma null_field_invalid:
  assumes "k \<in> {''name'', ''city'', ''age'', ''gender'', ''height'', ''weight''}"
    and "map_of d k = Some JNull"
  shows "parse_patient L d = None \<and> k \<in> set (invalid_fields L d)"
proof -
  have "field d k (validate_str lo hi) = None" "field d k (validate_age L) = None"
    "field d k validate_gender = None" "field d k (validate_positive_float L) = None" for lo hi
    using assms(2)
    by (simp_all add: field_def validate_age_def validate_positive_float_def gt0_def)
  then show ?thesis
    using assms(1)
    unfolding parse_patient_def invalid_fields_def set_append Un_iff in_singleton_if
    by (elim insertE emptyE) simp_all
qed

text \<open>
  Claim C10. In an update of an existing id, a field the payload sets to null is not
  ignored: it is part of the dumped payload, it replaces the stored value in the merged
  record, and the validation of the merged record fails, naming every such field; the
  file is left unchanged and is not saved.
\<close>

theorem update_explicit_null_rejected:
  assumes "map_of (patients_json s) pid = Some x"
    and "null_fields u \<noteq> []"
  shows "\<exists>fields. update_patient L pid u s
           = (Inl (ValidationError fields), s\<lparr>trace := trace s @ [Loaded]\<rparr>)
         \<and> set (null_fields u) \<subseteq> set fields
         \<and> set (null_fields u) \<subseteq> fst ` set (model_dump_exclude_unset u)"
proof -
  let ?d = "AList.update ''id'' (JStr pid)
    (fold (\<lambda>kv d. AList.update (fst kv) (snd kv) d) (model_dump_exclude_unset u) x)"
  from assms(2) obtain k where k: "k \<in> set (null_fields u)"
    by (cases "null_fields u") auto
  have bad: "parse_patient L ?d = None"
    using null_field_invalid[OF null_fields_names[OF k] null_field_merged[OF k]] by simp
  have all: "set (null_fields u) \<subseteq> set (invalid_fields L ?d)"
    using null_field_invalid[OF null_fields_names null_field_merged] by blast
  have dumped: "set (null_fields u) \<subseteq> fst ` set (model_dump_exclude_unset u)"
  proof
    fix j assume "j \<in> set (null_fields u)"
    then have "map_of (rev (model_dump_exclude_unset u)) j = Some JNull"
      by (rule null_field_dumped)
    then have "(j, JNull) \<in> set (rev (model_dump_exclude_unset u))"
      by (rule map_of_SomeD)
    then show "j \<in> fst ` set (model_dump_exclude_unset u)"
      by force
  qed
  have "update_patient L pid u s
      = (Inl (ValidationError (invalid_fields L ?d)), s\<lparr>trace := trace s @ [Loaded]\<rparr>)"
    using assms(1) bad
    by (simp add: update_patient_def load_data_def validate_patient_def Let_def)
  with all dumped show ?thesis
    by blast
qed

theorem update_explicit_null_rejected_witness:
  "map_of (patients_json scenario) ''P001'' = Some john_stored
   \<and> null_fields null_name \<noteq> []
   \<and> update_patient no_parse ''P001'' null_name scenario
       = (Inl (ValidationError [''name'']), scenario\<lparr>trace := [Loaded]\<rparr>)
   \<and> model_dump_exclude_unset null_name = [(''name'', JNull)]"
proof -
  have h: "map_of (patients_json scenario) ''P001'' = Some john_stored"
    and n: "null_fields null_name \<noteq> []"
    and d: "model_dump_exclude_unset null_name = [(''name'', JNull)]"
    by code_simp+
  have t: "trace scenario = []"
    by (simp add: scenario_def)
  have f: "fst (update_patient no_parse ''P001'' null_name scenario)
             = Inl (ValidationError [''name''])"
    by code_simp
  from update_explicit_null_rejected[OF h n, of no_parse] obtain fields where
    u: "update_patient no_parse ''P001'' null_name scenario
          = (Inl (ValidationError fields), scenario\<lparr>trace := trace scenario @ [Loaded]\<rparr>)"
    by blast
  with f have "fields = [''name'']"
    by simp
  with u h n d show ?thesis
    by (simp add: t)
qed

subsection \<open>Sorting the collection\<close>

lemma list_sort_mset: "mset (list_sort k r xs) = mset xs"
  by (simp add: list_sort_def)

lemma list_sort_ascending: "sorted (map k (list_sort k False xs))"
  by (simp add: list_sort_def)

lemma list_sort_descending: "sorted (rev (map k (list_sort k True xs)))"
  by (simp add: list_sort_def rev_map[symmetric])

lemma list_sort_stable:
  "filter (\<lambda>x. k x = v) (list_sort k r xs) = filter (\<lambda>x. k x = v) xs"
  by (simp add: list_sort_def sort_key_stable rev_filter[symmetric])

lemma short_list_sorted:
  "length xs \<le> 1 \<Longrightarrow> sorted (map k xs) \<and> sorted (rev (map k xs))"
  by (cases xs) auto

lemma sorted_py_numeric:
  assumes "list_all (\<lambda>x. num_key (key x) \<noteq> None) xs"
  shows "\<exists>out. sorted_py key r xs = Inr out
    \<and> mset out = mset xs
    \<and> (\<not> r \<longrightarrow> sorted (map (\<lambda>x. num_of (key x)) out))
    \<and> (r \<longrightarrow> sorted (rev (map (\<lambda>x. num_of (key x)) out)))
    \<and> (\<forall>v. filter (\<lambda>x. num_of (key x) = v) out = filter (\<lambda>x. num_of (key x) = v) xs)"
proof (cases "length xs \<le> 1")
  case True
  then show ?thesis
    using short_list_sorted[OF True, of "\<lambda>x. num_of (key x)"] by (simp add: sorted_py_def)
next
  case False
  then have "sorted_py key r xs = Inr (list_sort (\<lambda>x. num_of (key x)) r xs)"
    using assms by (simp add: sorted_py_def)
  then show ?thesis
    using list_sort_ascending[of "\<lambda>x. num_of (key x)" xs]
      list_sort_descending[of "\<lambda>x. num_of (key x)" xs]
    by (cases r) (simp_all add: list_sort_mset list_sort_stable)
qed

text \<open>
  Claim C8. For \<open>sort_by\<close> one of bmi, weight, height and \<open>order\<close> one of asc, desc, on a
  collection in which the requested field, where a record has it, is a number: sort loads
  the file and returns all the records (the same records, as many times), ordered by the
  number in the requested field, ascending for asc (what the handler takes when no order
  is given) and descending for desc; records with the same number keep the order they
  have in the collection; a record without the field is ordered as 0.
\<close>

theorem sort_patients_stable_sorted:
  assumes "sort_by \<in> {''bmi'', ''weight'', ''height''}"
    and "order \<in> {''asc'', ''desc''}"
    and "list_all (numeric_field sort_by) (map snd (patients_json s))"
  shows "\<exists>out. sort_patients sort_by order s = (Inr out, s\<lparr>trace := trace s @ [Loaded]\<rparr>)
    \<and> mset out = mset (map snd (patients_json s))
    \<and> (order = ''asc'' \<longrightarrow> sorted (map (sort_value sort_by) out))
    \<and> (order = ''desc'' \<longrightarrow> sorted (rev (map (sort_value sort_by) out)))
    \<and> (\<forall>v. filter (\<lambda>x. sort_value sort_by x = v) out
             = filter (\<lambda>x. sort_value sort_by x = v) (map snd (patients_json s)))
    \<and> (\<forall>x. map_of x sort_by = None \<longrightarrow> sort_value sort_by x = 0)"
proof -
  let ?key = "\<lambda>x. get x sort_by (JInt 0)"
  let ?xs = "map snd (patients_json s)"
  have num: "list_all (\<lambda>x. num_key (?key x) \<noteq> None) ?xs"
    using assms(3) by (simp add: numeric_field_def[abs_def])
  have run: "sort_patients sort_by order s
      = (sorted_py ?key (order = ''desc'') ?xs, s\<lparr>trace := trace s @ [Loaded]\<rparr>)"
    using assms(1,2) by (auto simp: sort_patients_def valid_sort_fields_def load_data_def)
  have missing: "\<forall>x. map_of x sort_by = None \<longrightarrow> sort_value sort_by x = 0"
    by (simp add: sort_value_def get_def num_of_def)
  from sorted_py_numeric[OF num, of "order = ''desc''"] obtain out where
    out: "sorted_py ?key (order = ''desc'') ?xs = Inr out"
      "mset out = mset ?xs"
      "order \<noteq> ''desc'' \<longrightarrow> sorted (map (\<lambda>x. num_of (?key x)) out)"
      "order = ''desc'' \<longrightarrow> sorted (rev (map (\<lambda>x. num_of (?key x)) out))"
      "\<forall>v. filter (\<lambda>x. num_of (?key x) = v) out = filter (\<lambda>x. num_of (?key x) = v) ?xs"
    by blast
  show ?thesis
    using run out missing by (auto simp: sort_value_def[abs_def])
qed

theorem sort_patients_stable_sorted_witness:
  "''bmi'' \<in> {''bmi'', ''weight'', ''height''} \<and> ''desc'' \<in> {''asc'', ''desc''}
   \<and> list_all (numeric_field ''bmi'') (map snd (patients_json ward))
   \<and> sort_patients ''bmi'' ''desc'' ward = (Inr [cyd, ann, dee, bob], ward\<lparr>trace := [Loaded]\<rparr>)
   \<and> sorted (rev (map (sort_value ''bmi'') [cyd, ann, dee, bob]))
   \<and> map (sort_value ''bmi'') [cyd, ann, dee, bob] = [30, 2286 / 100, 2286 / 100, 0]
   \<and> fst (sort_patients ''bmi'' ''asc'' ward) = Inr [bob, ann, dee, cyd]"
proof -
  have a: "''bmi'' \<in> {''bmi'', ''weight'', ''height''}" and b: "''desc'' \<in> {''asc'', ''desc''}"
    by simp_all
  have c: "list_all (numeric_field ''bmi'') (map snd (patients_json ward))"
    by code_simp
  have t: "trace ward = []"
    by (simp add: ward_def)
  have f: "fst (sort_patients ''bmi'' ''desc'' ward) = Inr [cyd, ann, dee, bob]"
    and g: "fst (sort_patients ''bmi'' ''asc'' ward) = Inr [bob, ann, dee, cyd]"
    and v: "map (sort_value ''bmi'') [cyd, ann, dee, bob] = [30, 2286 / 100, 2286 / 100, 0]"
    by code_simp+
  from sort_patients_stable_sorted[OF a b c] obtain out where
    r: "sort_patients ''bmi'' ''desc'' ward = (Inr out, ward\<lparr>trace := trace ward @ [Loaded]\<rparr>)"
    and s: "sorted (rev (map (sort_value ''bmi'') out))"
    by blast
  from r f have "out = [cyd, ann, dee, bob]"
    by simp
  with r s a b c g v show ?thesis
    by (simp add: t)
qed

subsection \<open>What is stored\<close>

lemma model_dump_exclude_id:
  "model_dump_exclude [''id''] q =
     [(''name'', JStr (name q)), (''city'', JStr (city q)), (''age'', JInt (age q)),
      (''gender'', JStr (gender_str (gender q))), (''height'', JFloat (height q)),
      (''weight'', JFloat (weight q)), (''bmi'', JFloat (bmi q)),
      (''verdict'', JStr (verdict q))]"
  by (simp add: model_dump_exclude_def model_dump_def)

text \<open>
  Claim C1, as the code has it. After a successful create or update, the value stored
  under the patient's id is the dump of a \<^verbatim>\<open>Patient\<close> without its id: the six input fields
  followed by the two computed fields \<open>bmi\<close> and \<open>verdict\<close>, which are computed when the
  record is written and stored with it. There is no \<open>id\<close> field.
\<close>

theorem stored_record_fields:
  "(\<forall>r s'. create_patient p s = (Inr r, s') \<longrightarrow>
       map_of (patients_json s') (ident p) = Some (model_dump_exclude [''id''] p))
   \<and> (\<forall>r s'. update_patient L pid u s = (Inr r, s') \<longrightarrow>
       (\<exists>q. map_of (patients_json s') pid = Some (model_dump_exclude [''id''] q)))
   \<and> map fst (model_dump_exclude [''id''] q) =
       [''name'', ''city'', ''age'', ''gender'', ''height'', ''weight'', ''bmi'', ''verdict'']
   \<and> map_of (model_dump_exclude [''id''] q) ''bmi'' = Some (JFloat (bmi q))
   \<and> map_of (model_dump_exclude [''id''] q) ''verdict'' = Some (JStr (verdict q))"
proof (intro conjI allI impI)
  fix r s' assume "create_patient p s = (Inr r, s')"
  from create_patient_success[OF this]
  show "map_of (patients_json s') (ident p) = Some (model_dump_exclude [''id''] p)"
    by (simp add: update_conv')
next
  fix r s' assume a: "update_patient L pid u s = (Inr r, s')"
  from update_patient_success_dump[OF a] obtain q where
    "content_patient r = model_dump_exclude [''id''] q"
    by blast
  with update_patient_success[OF a]
  show "\<exists>q. map_of (patients_json s') pid = Some (model_dump_exclude [''id''] q)"
    by (auto simp: update_conv')
qed (simp_all add: model_dump_exclude_id)

theorem stored_record_fields_witness:
  "fst (create_patient john empty_storage)
     = Inr \<lparr>status_code = 201, content_message = ''Patient created successfully'',
            content_patient = model_dump john\<rparr>
   \<and> map_of (patients_json (snd (create_patient john empty_storage))) (ident john)
     = Some (model_dump_exclude [''id''] john)"
proof -
  let ?r = "\<lparr>status_code = 201, content_message = ''Patient created successfully'',
             content_patient = model_dump john\<rparr>"
  have f: "fst (create_patient john empty_storage) = Inr ?r"
    by code_simp
  then have "create_patient john empty_storage
      = (Inr ?r, snd (create_patient john empty_storage))"
    by (cases "create_patient john empty_storage") simp
  with stored_record_fields[of john empty_storage, THEN conjunct1]
  have "map_of (patients_json (snd (create_patient john empty_storage))) (ident john)
     = Some (model_dump_exclude [''id''] john)"
    by (elim allE impE) assumption+
  with f show ?thesis
    by simp
qed

text \<open>
  The claim as the specification states it (exactly six fields, no computed field stored)
  fails: the record that create stores for the scenario's patient has eight keys, and
  \<open>bmi\<close> is among them.
\<close>

theorem stored_record_fields_counterexample:
  "map_of (patients_json (snd (create_patient john empty_storage))) ''P001''
     = Some [(''name'', JStr ''John Doe''), (''city'', JStr ''NY''), (''age'', JInt 30),
             (''gender'', JStr ''male''), (''height'', JFloat (175 / 100)),
             (''weight'', JFloat 70), (''bmi'', JFloat (2286 / 100)),
             (''verdict'', JStr ''Normal weight'')]"
  by code_simp

subsection \<open>The scenario\<close>

text \<open>
  Claim C2, as the code has it. On the scenario's store, get-by-id of "p001" succeeds and
  returns the stored record as it is: its six fields, nothing computed. A record written
  by create carries \<open>bmi = 22.86\<close> and \<open>verdict = "Normal weight"\<close>, and get-by-id of "p001"
  returns them. After delete of "P001", get-by-id of "P001" fails with status 404.
\<close>

theorem scenario_get_and_delete:
  "view_patient ''p001'' scenario = (Inr john_stored, scenario\<lparr>trace := [Loaded]\<rparr>)
   \<and> map fst john_stored = [''name'', ''city'', ''age'', ''gender'', ''height'', ''weight'']
   \<and> fst (view_patient ''p001'' (snd (create_patient john empty_storage)))
       = Inr (model_dump_exclude [''id''] john)
   \<and> map_of (model_dump_exclude [''id''] john) ''bmi'' = Some (JFloat (2286 / 100))
   \<and> map_of (model_dump_exclude [''id''] john) ''verdict'' = Some (JStr ''Normal weight'')
   \<and> delete_patient ''P001'' scenario
       = (Inr ''Patient deleted successfully'',
          \<lparr>patients_json = [], trace = [Loaded, Saved]\<rparr>)
   \<and> fst (view_patient ''P001'' (snd (delete_patient ''P001'' scenario)))
       = Inl (HTTPException 404 ''Patient not found'')"
  by (intro conjI; code_simp)

text \<open>
  The claim as the specification states it fails: the record that get-by-id returns for
  "p001" on the scenario's store has neither a \<open>bmi\<close> nor a \<open>verdict\<close>.
\<close>

theorem scenario_get_counterexample:
  "fst (view_patient ''p001'' scenario) = Inr john_stored
   \<and> map_of john_stored ''bmi'' = None
   \<and> map_of john_stored ''verdict'' = None"
  by (intro conjI; code_simp)

subsection \<open>What validation guarantees\<close>

lemma validate_str_bounds:
  "validate_str lo hi j = Some s \<Longrightarrow> lo \<le> length s \<and> length s \<le> hi"
  by (cases j) (auto split: if_splits)

lemma gt0_positive: "gt0 v = Some x \<Longrightarrow> 0 < x"
  by (auto simp: gt0_def split: option.splits if_splits)

lemma field_SomeD: "field d k f = Some y \<Longrightarrow> \<exists>j. map_of d k = Some j \<and> f j = Some y"
  by (auto simp: field_def split: option.splits)

lemma parse_patient_valid:
  assumes "parse_patient L d = Some p"
  shows "valid_patient p"
proof -
  from assms obtain i n c a g h w where
    f: "field d ''name'' (validate_str 2 50) = Some n"
       "field d ''city'' (validate_str 2 100) = Some c"
       "field d ''age'' (validate_age L) = Some a"
       "field d ''height'' (validate_positive_float L) = Some h"
       "field d ''weight'' (validate_positive_float L) = Some w"
    and p: "p = \<lparr>ident = i, name = n, city = c, age = a, gender = g, height = h, weight = w\<rparr>"
    unfolding parse_patient_def bind_eq_Some_conv by fastforce
  from f(1) have "2 \<le> length n \<and> length n \<le> 50"
    by (auto dest!: field_SomeD validate_str_bounds)
  moreover from f(2) have "2 \<le> length c \<and> length c \<le> 100"
    by (auto dest!: field_SomeD validate_str_bounds)
  moreover from f(3) have "0 < a"
    by (auto simp: validate_age_def dest!: field_SomeD gt0_positive)
  moreover from f(4) have "0 < h"
    by (auto simp: validate_positive_float_def dest!: field_SomeD gt0_positive)
  moreover from f(5) have "0 < w"
    by (auto simp: validate_positive_float_def dest!: field_SomeD gt0_positive)
  ultimately show ?thesis
    by (simp add: p valid_patient_def)
qed

subsection \<open>A partial update\<close>







subsection \<open>Normalization of the id\<close>

lemma create_then_view:
  assumes "map_of (patients_json s) (ident p) = None"
    and "upper (strip pid) = ident p"
  shows "fst (view_patient pid (snd (create_patient p s))) = Inr (model_dump_exclude [''id''] p)"
  using assms
  by (simp add: view_patient_def create_patient_def load_data_def save_data_def Let_def
      update_conv')

text \<open>
  Claim C3, at the input where the code departs from it. On the scenario's store, whose
  only key is "P001", get-by-id and delete of "p001" find the record, their handlers
  trimming and upper-casing the id; update of "p001", and of " P001 ", fails with status
  404 and changes nothing, its handler looking the id up as it was given.
\<close>

theorem update_patient_id_not_normalized:
  "fst (view_patient ''p001'' scenario) = Inr john_stored
   \<and> fst (delete_patient ''p001'' scenario) = Inr ''Patient deleted successfully''
   \<and> update_patient no_parse ''p001'' (age_only 40) scenario
       = (Inl (HTTPException 404 ''Patient not found''), scenario\<lparr>trace := [Loaded]\<rparr>)
   \<and> update_patient no_parse '' P001 '' (age_only 40) scenario
       = (Inl (HTTPException 404 ''Patient not found''), scenario\<lparr>trace := [Loaded]\<rparr>)
   \<and> upper (strip ''p001'') = ''P001'' \<and> upper (strip '' P001 '') = ''P001''"
  by (intro conjI; code_simp)

text \<open>
  Claim C4, at the input where the code departs from it. Creating the scenario's patient
  with the id "p001" on an empty store succeeds and stores the record under the key
  "p001", as given; get-by-id then fails with status 404 for "P001" and for "p001" alike,
  since it looks up the upper-cased id.
\<close>

theorem created_lowercase_id_not_found:
  "fst (create_patient (john\<lparr>ident := ''p001''\<rparr>) empty_storage)
     = Inr \<lparr>status_code = 201, content_message = ''Patient created successfully'',
            content_patient = model_dump (john\<lparr>ident := ''p001''\<rparr>)\<rparr>
   \<and> patients_json (snd (create_patient (john\<lparr>ident := ''p001''\<rparr>) empty_storage))
     = [(''p001'', model_dump_exclude [''id''] john)]
   \<and> fst (view_patient ''P001'' (snd (create_patient (john\<lparr>ident := ''p001''\<rparr>) empty_storage)))
     = Inl (HTTPException 404 ''Patient not found'')
   \<and> fst (view_patient ''p001'' (snd (create_patient (john\<lparr>ident := ''p001''\<rparr>) empty_storage)))
     = Inl (HTTPException 404 ''Patient not found'')"
  by (intro conjI; code_simp)

end
